theory Spec2Isabelle
  imports Complex_Main "HOL-Library.Word" "HOL-Library.Monad_Syntax"
begin

unbundle bit_operations_syntax

section \<open>The reference-finding engine of \<^verbatim>\<open>src/dbg/reference.cpp\<close>\<close>

text \<open>
  The file holds two functions: \<^verbatim>\<open>RefFind\<close>, which turns a request into one or more
  scan ranges, and \<^verbatim>\<open>RefFindInRange\<close>, which reads one range of the debuggee, sweeps it
  with the disassembler and calls the caller's callback on every decoded instruction.

  Everything the two functions call but do not define (memory and module lookups, the
  disassembler, the GUI) is a field of an environment record or an event of a trace.
\<close>

subsection \<open>Data\<close>

text \<open>\<^verbatim>\<open>duint\<close> is the pointer-sized unsigned integer of the debugger (64 bits here);
  its arithmetic wraps around.\<close>

type_synonym duint = "64 word"
type_synonym byte = "8 word"

text \<open>A C \<^verbatim>\<open>int\<close> that takes part in \<^verbatim>\<open>duint\<close> arithmetic: 32 bits, read as signed by \<open>sint\<close>.\<close>

type_synonym cint = "32 word"

datatype REFFINDTYPE = CURRENT_REGION | CURRENT_MODULE | ALL_MODULES

text \<open>The fields of \<^verbatim>\<open>MODINFO\<close> that \<^verbatim>\<open>RefFind\<close> reads: \<^verbatim>\<open>base\<close>,
  \<^verbatim>\<open>size\<close> and \<^verbatim>\<open>name\<close>.\<close>

record MODINFO =
  base :: duint
  msize :: duint
  mname :: string

text \<open>
  \<^verbatim>\<open>REFINFO\<close> is the search context handed to the callback. Its \<^verbatim>\<open>userinfo\<close> pointer
  is modelled by the value \<open>'u\<close> it points to, threaded beside the record.
  \<^verbatim>\<open>refcount\<close> is a C \<^verbatim>\<open>int\<close>; signed overflow is undefined in the source and the
  counter is an unbounded integer here.
\<close>

record REFINFO =
  refcount :: int
  name :: string

text \<open>
  The calls that leave the two functions, in the order they are made. A memory read is
  recorded with its address and size; \<^verbatim>\<open>dprintf\<close> with its format string and pointer
  arguments; a call of the callback with the instruction it was given (\<open>None\<close> for the
  initialisation call \<^verbatim>\<open>Callback(0, 0, &refInfo)\<close>) and the value it returned.
\<close>

datatype 'ins event =
    EvDprintf string "duint list"
  | EvMemRead duint duint
  | EvCallback "'ins option" bool
  | EvTaskProgress int string
  | EvProgress int
  | EvReloadData

text \<open>
  The collaborators. \<open>MemFindBaseAddr\<close> returns the base and the size it stores through
  its out-parameter (the size stays 0 when it stores nothing). \<open>MemRead\<close> returns the
  bytes read, or \<open>None\<close> when it returns false. \<open>Disassemble\<close> gets the address, the
  buffer from the current offset on and the maximal size, and returns the instruction
  with the length \<^verbatim>\<open>cp.Size()\<close> reports, or \<open>None\<close> when it returns false.
  \<open>MAX_DISASM_BUFFER\<close> is a constant of a header that is not part of the file.

  The two progress percentages are computed by the source in single precision:
  \<^verbatim>\<open>(int)floor(((float)i / (float)scanSize) * 100.0f)\<close> for a range and
  \<^verbatim>\<open>(int)floor((((float)i + (float)percent / 100.f) / (float)modList.size()) * 100.f)\<close>
  over all modules. Rounding to single precision is outside this development, so the
  two expressions are fields of the environment: \<open>range_percent i scanSize\<close> and
  \<open>total_percent i percent count\<close>. Their reading over the rationals is
  \<open>range_percent_exact\<close> and \<open>total_percent_exact\<close> below.
\<close>

record 'ins env =
  MemFindBaseAddr :: "duint \<Rightarrow> duint \<times> duint"
  ModNameFromAddr :: "duint \<Rightarrow> string option"
  ModInfoFromAddr :: "duint \<Rightarrow> MODINFO option"
  ModGetList :: "MODINFO list"
  MemRead :: "duint \<Rightarrow> duint \<Rightarrow> byte list option"
  Disassemble :: "duint \<Rightarrow> byte list \<Rightarrow> int \<Rightarrow> (cint \<times> 'ins) option"
  MAX_DISASM_BUFFER :: int
  range_percent :: "duint \<Rightarrow> duint \<Rightarrow> int"
  total_percent :: "nat \<Rightarrow> int \<Rightarrow> nat \<Rightarrow> int"

definition range_percent_exact :: "duint \<Rightarrow> duint \<Rightarrow> int" where
  "range_percent_exact i scanSize =
     \<lfloor>(of_nat (unat i) / of_nat (unat scanSize)) * (100 :: rat)\<rfloor>"

definition total_percent_exact :: "nat \<Rightarrow> int \<Rightarrow> nat \<Rightarrow> int" where
  "total_percent_exact i percent count =
     \<lfloor>((of_nat i + of_int percent / 100) / of_nat count) * (100 :: rat)\<rfloor>"

text \<open>
  The callback \<^verbatim>\<open>CBREF\<close>: it sees the instruction, the context and the caller's data,
  returns whether the instruction matches, and may change the caller's data. It reads
  the context and does not write to it: only \<^verbatim>\<open>RefFind\<close> and \<^verbatim>\<open>RefFindInRange\<close> change
  \<^verbatim>\<open>refcount\<close>.
\<close>

type_synonym ('ins, 'u) CBREF = "'ins option \<Rightarrow> REFINFO \<Rightarrow> 'u \<Rightarrow> bool \<times> 'u"

text \<open>The progress callback \<^verbatim>\<open>CBPROGRESS\<close>: the three lambdas of \<^verbatim>\<open>RefFind\<close> only call
  the GUI, so a progress callback is the list of events it emits for a percentage.\<close>

type_synonym 'ins CBPROGRESS = "int \<Rightarrow> 'ins event list"

text \<open>The state a range scan works on: the context, the caller's data and the trace.\<close>

record ('ins, 'u) scan_state =
  refInfo :: REFINFO
  userdata :: 'u
  events :: "'ins event list"

definition emit :: "'ins event list \<Rightarrow> ('ins, 'u) scan_state \<Rightarrow> ('ins, 'u) scan_state" where
  "emit evs st = st\<lparr>events := events st @ evs\<rparr>"

subsection \<open>\<^verbatim>\<open>RefFindInRange\<close>\<close>

text \<open>One call of the callback: the result is recorded, the caller's data replaced.\<close>

definition call_Callback ::
  "('ins, 'u) CBREF \<Rightarrow> 'ins option \<Rightarrow> ('ins, 'u) scan_state \<Rightarrow> bool \<times> ('ins, 'u) scan_state" where
  "call_Callback Callback ins st =
     (let (hit, u) = Callback ins (refInfo st) (userdata st)
      in (hit, st\<lparr>userdata := u, events := events st @ [EvCallback ins hit]\<rparr>))"

text \<open>\<^verbatim>\<open>min(MAX_DISASM_BUFFER, (int)(scanSize - i))\<close>: the difference is truncated to a
  32-bit signed \<^verbatim>\<open>int\<close>.\<close>

definition disasmMaxSize :: "'ins env \<Rightarrow> duint \<Rightarrow> duint \<Rightarrow> int" where
  "disasmMaxSize env scanSize i =
     min (MAX_DISASM_BUFFER env) (sint (ucast (scanSize - i) :: 32 word))"

text \<open>The progress report at the head of the loop body (lines 206 to 213).\<close>

definition report_progress ::
  "'ins env \<Rightarrow> 'ins CBPROGRESS \<Rightarrow> duint \<Rightarrow> duint \<Rightarrow> ('ins, 'u) scan_state \<Rightarrow> ('ins, 'u) scan_state" where
  "report_progress env cbUpdateProgress scanSize i st =
     (if i mod 0x1000 = 0 then emit (cbUpdateProgress (range_percent env i scanSize)) st else st)"

text \<open>The callback on a decoded instruction, with the increment of the counter
  (lines 221 to 225).\<close>

definition visit ::
  "('ins, 'u) CBREF \<Rightarrow> 'ins \<Rightarrow> ('ins, 'u) scan_state \<Rightarrow> ('ins, 'u) scan_state" where
  "visit Callback ins st =
     (let (hit, st') = call_Callback Callback (Some ins) st
      in if hit then st'\<lparr>refInfo := (refInfo st')\<lparr>refcount := refcount (refInfo st') + 1\<rparr>\<rparr>
         else st')"

text \<open>
  The body of the loop, lines 205 to 232: the progress report, the disassembly and the
  callback. It gives \<^verbatim>\<open>disasmLen\<close> (1 unless the disassembler succeeded) and the new
  state.
\<close>

definition loop_body ::
  "'ins env \<Rightarrow> ('ins, 'u) CBREF \<Rightarrow> 'ins CBPROGRESS \<Rightarrow> byte list \<Rightarrow> duint \<Rightarrow> duint \<Rightarrow> duint \<Rightarrow>
   ('ins, 'u) scan_state \<Rightarrow> cint \<times> ('ins, 'u) scan_state" where
  "loop_body env Callback cbUpdateProgress data scanSize scanStart i st =
     (let st1 = report_progress env cbUpdateProgress scanSize i st
      in case Disassemble env scanStart (drop (unat i) data) (disasmMaxSize env scanSize i) of
           Some (len, ins) \<Rightarrow> (len, visit Callback ins st1)
         | None \<Rightarrow> (1, st1))"

text \<open>
  The loop of lines 203 to 236. Nothing in the loop bounds the length the disassembler
  reports, so the loop may run forever: it is a partial function and \<open>None\<close> stands for
  a sweep that does not return. \<open>scanStart\<close> and \<open>i\<close> advance by \<open>disasmLen\<close>, an
  \<^verbatim>\<open>int\<close> converted to \<^verbatim>\<open>duint\<close>.
\<close>

partial_function (option) sweep ::
  "'ins env \<Rightarrow> ('ins, 'u) CBREF \<Rightarrow> 'ins CBPROGRESS \<Rightarrow> byte list \<Rightarrow> duint \<Rightarrow> duint \<Rightarrow> duint \<Rightarrow>
   ('ins, 'u) scan_state \<Rightarrow> ('ins, 'u) scan_state option" where
  "sweep env Callback cbUpdateProgress data scanSize scanStart i st =
     (if i < scanSize then
        (let (disasmLen, st') = loop_body env Callback cbUpdateProgress data scanSize scanStart i st
         in sweep env Callback cbUpdateProgress data scanSize
              (scanStart + word_of_int (sint disasmLen)) (i + word_of_int (sint disasmLen)) st')
      else Some st)"

declare sweep.simps [code]

definition RefFindInRange ::
  "'ins env \<Rightarrow> duint \<Rightarrow> duint \<Rightarrow> ('ins, 'u) CBREF \<Rightarrow> bool \<Rightarrow> ('ins, 'u) scan_state \<Rightarrow> bool \<Rightarrow>
   'ins CBPROGRESS \<Rightarrow> (int \<times> ('ins, 'u) scan_state) option" where
  "RefFindInRange env scanStart scanSize Callback Silent st initCallBack cbUpdateProgress =
     (case MemRead env scanStart scanSize of
        None \<Rightarrow>
          Some (0, emit (EvMemRead scanStart scanSize #
                         (if \<not> Silent then [EvDprintf ''Error reading memory in reference search\<newline>'' []]
                          else [])) st)
      | Some data \<Rightarrow>
          (let st0 = emit [EvMemRead scanStart scanSize] st;
               st1 = (if initCallBack then snd (call_Callback Callback None st0) else st0)
           in case sweep env Callback cbUpdateProgress data scanSize scanStart 0 st1 of
                None \<Rightarrow> None
              | Some st2 \<Rightarrow>
                  (let st3 = emit (cbUpdateProgress 100) st2
                   in Some (refcount (refInfo st3), st3))))"

subsection \<open>\<^verbatim>\<open>RefFind\<close>\<close>

text \<open>\<^verbatim>\<open>%p\<close> as the 64-bit runtime prints it: sixteen upper-case hexadecimal digits.\<close>

definition fmt_p :: "duint \<Rightarrow> string" where
  "fmt_p a = map (\<lambda>k. ''0123456789ABCDEF'' ! unat (drop_bit (4 * k) a AND 0xF)) (rev [0..<16])"

text \<open>Lines 35 to 47: the range scanned in region scope. \<open>min\<close> and the subtractions are
  those of \<^verbatim>\<open>duint\<close>.\<close>

definition region_range :: "duint \<Rightarrow> duint \<Rightarrow> duint \<Rightarrow> duint \<Rightarrow> duint \<times> duint" where
  "region_range regionBase regionSize Address Size =
     (if Size \<noteq> 0 then
        (let maxsize = Size - (Address - regionBase)
         in (Address, min Size maxsize))
      else (regionBase, regionSize))"

text \<open>What \<^verbatim>\<open>RefFind\<close> hands back: the returned \<^verbatim>\<open>int\<close>, the caller's data and the trace.\<close>

type_synonym ('ins, 'u) result = "int \<times> 'u \<times> 'ins event list"

text \<open>An early \<^verbatim>\<open>return\<close> inside a scope.\<close>

definition early_return :: "int \<Rightarrow> ('ins, 'u) scan_state \<Rightarrow> ('ins, 'u) result" where
  "early_return r st = (r, userdata st, events st)"

text \<open>Lines 180 to 182, reached when no scope returned early.\<close>

definition finish :: "('ins, 'u) scan_state \<Rightarrow> ('ins, 'u) result" where
  "finish st = (refcount (refInfo st), userdata st, events st @ [EvProgress 100, EvReloadData])"

text \<open>The three progress lambdas.\<close>

definition region_progress :: "'ins CBPROGRESS" where
  "region_progress percent = [EvTaskProgress percent ''Region Search'', EvProgress percent]"

definition module_progress :: "'ins CBPROGRESS" where
  "module_progress percent = [EvTaskProgress percent ''Module Search'', EvProgress percent]"

definition all_modules_progress :: "'ins env \<Rightarrow> MODINFO list \<Rightarrow> nat \<Rightarrow> 'ins CBPROGRESS" where
  "all_modules_progress env modList i percent =
     [EvTaskProgress percent (mname (modList ! i)),
      EvProgress (total_percent env i percent (length modList))]"

text \<open>The context with which every scope starts (lines 59 to 61, 107 to 109 and 146 to
  148), on an empty trace.\<close>

definition init_state :: "string \<Rightarrow> 'u \<Rightarrow> ('ins, 'u) scan_state" where
  "init_state fullName UserData =
     \<lparr>refInfo = \<lparr>refcount = 0, name = fullName\<rparr>, userdata = UserData, events = []\<rparr>"

text \<open>Lines 49 to 53 and 97 to 101: the names of the search.\<close>

definition region_fullName :: "'ins env \<Rightarrow> string \<Rightarrow> duint \<Rightarrow> string" where
  "region_fullName env Name scanStart =
     (case ModNameFromAddr env scanStart of
        Some moduleName \<Rightarrow> Name @ '' (Region '' @ moduleName @ '')''
      | None \<Rightarrow> Name @ '' (Region '' @ fmt_p scanStart @ '')'')"

definition module_fullName :: "'ins env \<Rightarrow> string \<Rightarrow> duint \<Rightarrow> string" where
  "module_fullName env Name scanStart =
     (case ModNameFromAddr env scanStart of
        Some moduleName \<Rightarrow> Name @ '' ('' @ moduleName @ '')''
      | None \<Rightarrow> Name @ '' ('' @ fmt_p scanStart @ '')'')"

text \<open>
  Each scope either returns early (\<open>Inl\<close>, with what \<^verbatim>\<open>RefFind\<close> then hands back) or
  falls through to line 180 (\<open>Inr\<close>, with the state it has reached).

  Lines 21 to 76.
\<close>

definition RefFind_region ::
  "'ins env \<Rightarrow> duint \<Rightarrow> duint \<Rightarrow> ('ins, 'u) CBREF \<Rightarrow> 'u \<Rightarrow> bool \<Rightarrow> string \<Rightarrow>
   (('ins, 'u) result + ('ins, 'u) scan_state) option" where
  "RefFind_region env Address Size Callback UserData Silent Name =
     (let (regionBase, regionSize) = MemFindBaseAddr env Address
      in if regionBase = 0 \<or> regionSize = 0 then
           Some (Inl (0, UserData,
                 if \<not> Silent then [EvDprintf ''Invalid memory page 0x%p\<newline>'' [Address]] else []))
         else
           (let (scanStart, scanSize) = region_range regionBase regionSize Address Size;
                fullName = region_fullName env Name scanStart
            in case RefFindInRange env scanStart scanSize Callback Silent
                      (init_state fullName UserData) True region_progress of
                 None \<Rightarrow> None
               | Some (refFindInRangeRet, st1) \<Rightarrow>
                   (let st2 = emit [EvReloadData] st1
                    in if refFindInRangeRet = 0 then Some (Inl (early_return refFindInRangeRet st2))
                       else Some (Inr (st2\<lparr>refInfo := (refInfo st2)
                              \<lparr>refcount := refcount (refInfo st2) + refFindInRangeRet\<rparr>\<rparr>)))))"

text \<open>Lines 79 to 122.\<close>

definition RefFind_module ::
  "'ins env \<Rightarrow> duint \<Rightarrow> ('ins, 'u) CBREF \<Rightarrow> 'u \<Rightarrow> bool \<Rightarrow> string \<Rightarrow>
   (('ins, 'u) result + ('ins, 'u) scan_state) option" where
  "RefFind_module env Address Callback UserData Silent Name =
     (case ModInfoFromAddr env Address of
        None \<Rightarrow>
          Some (Inl (0, UserData,
                if \<not> Silent then [EvDprintf ''Couldn't locate module for 0x%p\<newline>'' [Address]]
                else []))
      | Some modInfo \<Rightarrow>
          (let scanStart = base modInfo;
               scanSize = msize modInfo;
               fullName = module_fullName env Name scanStart
           in case RefFindInRange env scanStart scanSize Callback Silent
                     (init_state fullName UserData) True module_progress of
                None \<Rightarrow> None
              | Some (refFindInRangeRet, st1) \<Rightarrow>
                  if refFindInRangeRet = 0 then Some (Inl (early_return refFindInRangeRet st1))
                  else Some (Inr (emit [EvReloadData] st1))))"

text \<open>The loop of lines 150 to 177 from index \<open>i\<close> on.\<close>

function modules_loop ::
  "'ins env \<Rightarrow> ('ins, 'u) CBREF \<Rightarrow> bool \<Rightarrow> MODINFO list \<Rightarrow> nat \<Rightarrow> bool \<Rightarrow>
   ('ins, 'u) scan_state \<Rightarrow> (('ins, 'u) result + ('ins, 'u) scan_state) option" where
  "modules_loop env Callback Silent modList i initCallBack st =
     (if i < length modList then
        (let scanStart = base (modList ! i);
             scanSize = msize (modList ! i);
             initCallBack' = (if i \<noteq> 0 then False else initCallBack)
         in case RefFindInRange env scanStart scanSize Callback Silent st initCallBack'
                   (all_modules_progress env modList i) of
              None \<Rightarrow> None
            | Some (refFindInRangeRet, st1) \<Rightarrow>
                if refFindInRangeRet = 0 then Some (Inl (early_return refFindInRangeRet st1))
                else modules_loop env Callback Silent modList (i + 1) initCallBack'
                       (emit [EvReloadData] st1))
      else Some (Inr st))"
  by pat_completeness auto
termination
  by (relation "measure (\<lambda>(env, Callback, Silent, modList, i, initCallBack, st). length modList - i)")
    auto

declare modules_loop.simps [simp del]

text \<open>Lines 125 to 178.\<close>

definition RefFind_all_modules ::
  "'ins env \<Rightarrow> ('ins, 'u) CBREF \<Rightarrow> 'u \<Rightarrow> bool \<Rightarrow> string \<Rightarrow>
   (('ins, 'u) result + ('ins, 'u) scan_state) option" where
  "RefFind_all_modules env Callback UserData Silent Name =
     (let modList = ModGetList env
      in if length modList = 0 then
           Some (Inl (0, UserData,
                 if \<not> Silent then [EvDprintf ''Couldn't get module list'' []] else []))
         else
           (let fullName = ''All Modules ('' @ Name @ '')''
            in modules_loop env Callback Silent modList 0 True (init_state fullName UserData)))"

text \<open>The three scopes of lines 21 to 178.\<close>

definition RefFind_scope ::
  "'ins env \<Rightarrow> duint \<Rightarrow> duint \<Rightarrow> ('ins, 'u) CBREF \<Rightarrow> 'u \<Rightarrow> bool \<Rightarrow> string \<Rightarrow> REFFINDTYPE \<Rightarrow>
   (('ins, 'u) result + ('ins, 'u) scan_state) option" where
  "RefFind_scope env Address Size Callback UserData Silent Name type =
     (case type of
        CURRENT_REGION \<Rightarrow> RefFind_region env Address Size Callback UserData Silent Name
      | CURRENT_MODULE \<Rightarrow> RefFind_module env Address Callback UserData Silent Name
      | ALL_MODULES \<Rightarrow> RefFind_all_modules env Callback UserData Silent Name)"

definition RefFind ::
  "'ins env \<Rightarrow> duint \<Rightarrow> duint \<Rightarrow> ('ins, 'u) CBREF \<Rightarrow> 'u \<Rightarrow> bool \<Rightarrow> string \<Rightarrow> REFFINDTYPE \<Rightarrow>
   ('ins, 'u) result option" where
  "RefFind env Address Size Callback UserData Silent Name type =
     (case RefFind_scope env Address Size Callback UserData Silent Name type of
        None \<Rightarrow> None
      | Some (Inl r) \<Rightarrow> Some r
      | Some (Inr st) \<Rightarrow> Some (finish st))"

subsection \<open>An environment for the examples\<close>

text \<open>
  A debuggee whose memory is a list of blocks (base address and bytes), each block a
  region and a module of its own, and a disassembler that knows two instructions:
  \<^verbatim>\<open>90\<close> (\<^verbatim>\<open>nop\<close>, one byte) and \<^verbatim>\<open>E8\<close> (\<^verbatim>\<open>call rel32\<close>, five bytes). Every other byte
  fails to decode. A read succeeds when it lies within one block.
\<close>

datatype toy_ins = NOP duint | CALL duint

definition toy_Disassemble :: "duint \<Rightarrow> byte list \<Rightarrow> int \<Rightarrow> (cint \<times> toy_ins) option" where
  "toy_Disassemble addr bytes maxsize =
     (case bytes of
        [] \<Rightarrow> None
      | b # _ \<Rightarrow>
          if maxsize < 1 then None
          else if b = 0x90 then Some (1, NOP addr)
          else if b = 0xE8 \<and> 5 \<le> maxsize then Some (5, CALL addr)
          else None)"

definition toy_block :: "(duint \<times> byte list) list \<Rightarrow> duint \<Rightarrow> duint \<Rightarrow> (duint \<times> byte list) option" where
  "toy_block mem a n =
     (case filter (\<lambda>(b, bs). b \<le> a \<and> unat a + unat n \<le> unat b + length bs) mem of
        [] \<Rightarrow> None
      | blk # _ \<Rightarrow> Some blk)"

definition toy_module :: "duint \<times> byte list \<Rightarrow> MODINFO" where
  "toy_module blk = \<lparr>base = fst blk, msize = of_nat (length (snd blk)), mname = ''m''\<rparr>"

definition toy_env :: "(duint \<times> byte list) list \<Rightarrow> toy_ins env" where
  "toy_env mem =
     \<lparr>MemFindBaseAddr = (\<lambda>a. case toy_block mem a 1 of
                                None \<Rightarrow> (0, 0)
                              | Some (b, bs) \<Rightarrow> (b, of_nat (length bs))),
      ModNameFromAddr = (\<lambda>a. None),
      ModInfoFromAddr = (\<lambda>a. map_option toy_module (toy_block mem a 1)),
      ModGetList = map toy_module mem,
      MemRead = (\<lambda>a n. case toy_block mem a n of
                        None \<Rightarrow> None
                      | Some (b, bs) \<Rightarrow> Some (take (unat n) (drop (unat (a - b)) bs))),
      Disassemble = toy_Disassemble,
      MAX_DISASM_BUFFER = 16,
      range_percent = range_percent_exact,
      total_percent = total_percent_exact\<rparr>"

text \<open>A callback that matches every instruction and counts its matches in the caller's
  data, which the initialisation call resets.\<close>

definition match_all :: "(toy_ins, nat) CBREF" where
  "match_all ins ri u = (case ins of None \<Rightarrow> (False, 0) | Some _ \<Rightarrow> (True, u + 1))"



text \<open>
  Two modules, the first one byte that does not decode, the second one \<^verbatim>\<open>nop\<close>; and the
  state in which a scan of the first module ends: no match, the progress of the range
  at 0 and at 100, the overall progress last at \<open>final\<close>.
\<close>

definition silent_then_nop :: "toy_ins env" where
  "silent_then_nop = toy_env [(0x1000, [0xFF]), (0x2000, [0x90])]"

definition scanned_silent :: "string \<Rightarrow> string \<Rightarrow> int \<Rightarrow> (toy_ins, nat) scan_state" where
  "scanned_silent fullName label final =
     \<lparr>refInfo = \<lparr>refcount = 0, name = fullName\<rparr>, userdata = 0,
      events = [EvMemRead 0x1000 1, EvCallback None False,
                EvTaskProgress 0 label, EvProgress 0,
                EvTaskProgress 100 label, EvProgress final]\<rparr>"



section \<open>Notions the properties are stated with\<close>

subsection \<open>The offsets the loop visits\<close>

text \<open>\<^verbatim>\<open>disasmLen\<close> at an offset: what the disassembler reports there, 1 when it fails.\<close>

definition disasmLen_at :: "'ins env \<Rightarrow> byte list \<Rightarrow> duint \<Rightarrow> duint \<Rightarrow> duint \<Rightarrow> cint" where
  "disasmLen_at env data scanSize scanStart i =
     (case Disassemble env scanStart (drop (unat i) data) (disasmMaxSize env scanSize i) of
        Some (len, ins) \<Rightarrow> len
      | None \<Rightarrow> 1)"

text \<open>
  The values \<open>(scanStart, i)\<close> with which the body of the loop runs, in order: the
  loop of \<open>sweep\<close> without its state. \<open>None\<close> when the loop does not end.
\<close>

partial_function (option) positions ::
  "'ins env \<Rightarrow> byte list \<Rightarrow> duint \<Rightarrow> duint \<Rightarrow> duint \<Rightarrow> (duint \<times> duint) list option" where
  "positions env data scanSize scanStart i =
     (if i < scanSize then
        Option.bind
          (positions env data scanSize
             (scanStart + word_of_int (sint (disasmLen_at env data scanSize scanStart i)))
             (i + word_of_int (sint (disasmLen_at env data scanSize scanStart i))))
          (\<lambda>ps. Some ((scanStart, i) # ps))
      else Some [])"

declare positions.simps [code]

text \<open>The state after the body of the loop has run at a position.\<close>

definition body_state ::
  "'ins env \<Rightarrow> ('ins, 'u) CBREF \<Rightarrow> 'ins CBPROGRESS \<Rightarrow> byte list \<Rightarrow> duint \<Rightarrow> duint \<times> duint \<Rightarrow>
   ('ins, 'u) scan_state \<Rightarrow> ('ins, 'u) scan_state" where
  "body_state env Callback cb data scanSize =
     (\<lambda>(a, i) st. snd (loop_body env Callback cb data scanSize a i st))"


subsection \<open>Readings of a trace\<close>

fun is_EvCallback :: "'ins event \<Rightarrow> bool" where
  "is_EvCallback (EvCallback ins hit) = True"
| "is_EvCallback _ = False"

text \<open>The trace without the calls of the callback.\<close>

definition gui :: "'ins event list \<Rightarrow> 'ins event list" where
  "gui evs = filter (\<lambda>e. \<not> is_EvCallback e) evs"

text \<open>The overall percentages (\<^verbatim>\<open>GuiReferenceSetProgress\<close>) and the percentages of the
  current range (\<^verbatim>\<open>GuiReferenceSetCurrentTaskProgress\<close>) of a trace.\<close>

fun overall :: "'ins event list \<Rightarrow> int list" where
  "overall [] = []"
| "overall (EvProgress p # evs) = p # overall evs"
| "overall (_ # evs) = overall evs"

fun task_progress :: "'ins event list \<Rightarrow> int list" where
  "task_progress [] = []"
| "task_progress (EvTaskProgress p label # evs) = p # task_progress evs"
| "task_progress (_ # evs) = task_progress evs"


subsection \<open>What is asked of the collaborators\<close>

text \<open>A disassembler whose instructions are at least one byte long.\<close>

definition lengths_positive :: "'ins env \<Rightarrow> bool" where
  "lengths_positive env \<longleftrightarrow>
     (\<forall>a bs m l ins. Disassemble env a bs m = Some (l, ins) \<longrightarrow> 1 \<le> sint l)"



section \<open>The loop and the positions it visits\<close>

lemma fst_loop_body:
  "fst (loop_body env Callback cb data scanSize scanStart i st) =
     disasmLen_at env data scanSize scanStart i"
  by (simp add: loop_body_def disasmLen_at_def Let_def split: option.splits)

lemma positions_Cons:
  assumes "positions env data scanSize scanStart i = Some (p # ps)"
  shows "i < scanSize \<and> p = (scanStart, i) \<and>
         positions env data scanSize
           (scanStart + word_of_int (sint (disasmLen_at env data scanSize scanStart i)))
           (i + word_of_int (sint (disasmLen_at env data scanSize scanStart i))) = Some ps"
  using assms by (subst (asm) positions.simps) (auto simp: bind_eq_Some_conv split: if_splits)

lemma positions_Nil:
  "positions env data scanSize scanStart i = Some [] \<longleftrightarrow> \<not> i < scanSize"
  by (subst positions.simps) (auto simp: bind_eq_Some_conv)

text \<open>The sweep is the fold of the loop body over the positions, and returns exactly
  when the positions are defined.\<close>

lemma sweep_of_positions:
  "positions env data scanSize scanStart i = Some ps \<Longrightarrow>
   sweep env Callback cb data scanSize scanStart i st =
     Some (fold (body_state env Callback cb data scanSize) ps st)"
proof (induction ps arbitrary: scanStart i st)
  case Nil
  then have "\<not> i < scanSize" by (simp add: positions_Nil)
  then show ?case by (subst sweep.simps) simp
next
  case (Cons p ps)
  from positions_Cons [OF Cons.prems] have lt: "i < scanSize" and p: "p = (scanStart, i)"
    and rest: "positions env data scanSize
             (scanStart + word_of_int (sint (disasmLen_at env data scanSize scanStart i)))
             (i + word_of_int (sint (disasmLen_at env data scanSize scanStart i))) = Some ps"
    by blast+
  obtain l st1 where lb: "loop_body env Callback cb data scanSize scanStart i st = (l, st1)"
    by (cases "loop_body env Callback cb data scanSize scanStart i st")
  then have l: "l = disasmLen_at env data scanSize scanStart i"
    using fst_loop_body [of env Callback cb data scanSize scanStart i st] by simp
  show ?case
    using lt p lb Cons.IH [OF rest, of st1]
    by (subst sweep.simps) (simp add: body_state_def l)
qed


subsection \<open>Offsets that do not wrap around\<close>

lemma sint_cint_less: "sint (l :: cint) < 2 ^ 31"
  using sint_lt [of l] by simp

lemma unat_scast_cint:
  fixes l :: cint
  assumes "1 \<le> sint l"
  shows "unat (word_of_int (sint l) :: duint) = nat (sint l)"
proof -
  define k where "k = sint l"
  have lt: "k < 2 ^ 31" unfolding k_def by (rule sint_cint_less)
  have ge: "1 \<le> k" using assms unfolding k_def .
  have "uint (word_of_int k :: duint) = k mod 2 ^ 64"
    by (simp add: uint_word_of_int)
  also have "\<dots> = k" using lt ge by simp
  finally have "nat (uint (word_of_int k :: duint)) = nat k" by simp
  then show ?thesis unfolding k_def by (simp only: unat_eq_nat_uint)
qed

lemma unat_advance:
  fixes i scanSize :: duint and l :: cint
  assumes "i < scanSize" "unat scanSize + 2 ^ 31 \<le> (2 :: nat) ^ 64" "1 \<le> sint l"
  shows "unat (i + word_of_int (sint l)) = unat i + nat (sint l)"
proof -
  define w :: duint where "w = word_of_int (sint l)"
  have lt: "sint l < 2 ^ 31" by (rule sint_cint_less)
  have u: "unat w = nat (sint l)" unfolding w_def by (rule unat_scast_cint [OF assms(3)])
  have "unat i < unat scanSize" using assms(1) by (simp only: word_less_nat_alt)
  moreover have "nat (sint l) < 2 ^ 31" using lt assms(3) by (simp add: nat_less_iff)
  ultimately have "unat i + unat w < 2 ^ 64"
    using assms(2) u by simp
  then have "unat (i + w) = unat i + unat w" using unat_add_lem [of i w] by simp
  then show ?thesis using u unfolding w_def by simp
qed

lemma disasmLen_at_positive:
  "lengths_positive env \<Longrightarrow> 1 \<le> sint (disasmLen_at env data scanSize scanStart i)"
  by (auto simp: lengths_positive_def disasmLen_at_def split: option.splits)

lemma advance_less:
  fixes i scanSize :: duint
  assumes "lengths_positive env" "unat scanSize + 2 ^ 31 \<le> (2 :: nat) ^ 64" "i < scanSize"
  shows "i < i + word_of_int (sint (disasmLen_at env data scanSize scanStart i))"
proof -
  define l where "l = disasmLen_at env data scanSize scanStart i"
  have pos: "1 \<le> sint l" unfolding l_def by (rule disasmLen_at_positive [OF assms(1)])
  have "unat (i + word_of_int (sint l)) = unat i + nat (sint l)"
    by (rule unat_advance [OF assms(3) assms(2) pos])
  moreover have "0 < nat (sint l)" using pos by simp
  ultimately have "unat i < unat (i + word_of_int (sint l))" by simp
  then show ?thesis unfolding l_def word_less_nat_alt .
qed

lemma positions_terminates:
  assumes "lengths_positive env" "unat scanSize + 2 ^ 31 \<le> (2 :: nat) ^ 64"
  shows "\<exists>ps. positions env data scanSize scanStart i = Some ps"
proof (induction "unat scanSize - unat i" arbitrary: scanStart i rule: less_induct)
  case less
  show ?case
  proof (cases "i < scanSize")
    case False
    then show ?thesis by (subst positions.simps) simp
  next
    case True
    define i' where "i' = i + word_of_int (sint (disasmLen_at env data scanSize scanStart i))"
    define a' where
      "a' = scanStart + word_of_int (sint (disasmLen_at env data scanSize scanStart i))"
    have "i < i'" unfolding i'_def by (rule advance_less [OF assms True])
    then have "unat i < unat i'" by (simp only: word_less_nat_alt)
    moreover have "unat i < unat scanSize" using True by (simp only: word_less_nat_alt)
    ultimately have "unat scanSize - unat i' < unat scanSize - unat i"
      by (rule diff_less_mono2)
    from less [OF this] obtain ps where "positions env data scanSize a' i' = Some ps"
      by blast
    then have "positions env data scanSize scanStart i = Some ((scanStart, i) # ps)"
      unfolding i'_def a'_def using True
      by (subst positions.simps) (simp only: if_True bind.simps)
    then show ?thesis by blast
  qed
qed

lemma positions_increasing:
  assumes "lengths_positive env" "unat scanSize + 2 ^ 31 \<le> (2 :: nat) ^ 64"
  shows "positions env data scanSize scanStart i = Some ps \<Longrightarrow>
         sorted_wrt (<) (map snd ps) \<and> (\<forall>j \<in> set (map snd ps). i \<le> j \<and> j < scanSize)"
proof (induction ps arbitrary: scanStart i)
  case Nil
  then show ?case by simp
next
  case (Cons p ps)
  define i' where "i' = i + word_of_int (sint (disasmLen_at env data scanSize scanStart i))"
  define a' where
    "a' = scanStart + word_of_int (sint (disasmLen_at env data scanSize scanStart i))"
  from positions_Cons [OF Cons.prems] have lt: "i < scanSize" and p: "p = (scanStart, i)"
    and rest: "positions env data scanSize a' i' = Some ps"
    unfolding i'_def a'_def by blast+
  have less: "i < i'" unfolding i'_def by (rule advance_less [OF assms lt])
  from Cons.IH [OF rest] have
    srt: "sorted_wrt (<) (map snd ps)" and
    bnd: "\<forall>j \<in> set (map snd ps). i' \<le> j \<and> j < scanSize"
    by blast+
  have "\<forall>j \<in> set (map snd ps). i < j \<and> j < scanSize"
    using bnd less by (meson less_le_trans)
  then show ?case using srt lt p by (auto intro: less_imp_le)
qed

lemma lengths_positive_toy: "lengths_positive (toy_env mem)"
  by (auto simp: lengths_positive_def toy_env_def toy_Disassemble_def
      split: list.splits if_splits)

subsection \<open>What the loop adds to the trace\<close>

lemma set_events_report_progress:
  "set (events st) \<subseteq> set (events (report_progress env cb scanSize i st))"
  by (simp add: report_progress_def emit_def)

lemma set_events_visit:
  "set (events st) \<subseteq> set (events (visit Callback ins st))"
  by (auto simp: visit_def call_Callback_def split: prod.splits)

lemma callback_in_visit:
  "\<exists>hit. EvCallback (Some ins) hit \<in> set (events (visit Callback ins st))"
  by (auto simp: visit_def call_Callback_def split: prod.splits)

lemma set_events_loop_body:
  "set (events st) \<subseteq> set (events (snd (loop_body env Callback cb data scanSize a i st)))"
  using set_events_report_progress [of st env cb scanSize i]
    set_events_visit [of "report_progress env cb scanSize i st" Callback]
  by (auto simp: loop_body_def Let_def split: option.splits)

lemma set_events_fold_body:
  "set (events st) \<subseteq> set (events (fold (body_state env Callback cb data scanSize) ps st))"
proof (induction ps arbitrary: st)
  case Nil
  show ?case by simp
next
  case (Cons p ps)
  obtain a i where p: "p = (a, i)" by (cases p)
  show ?case
    using Cons.IH [of "snd (loop_body env Callback cb data scanSize a i st)"]
      set_events_loop_body [of st env Callback cb data scanSize a i]
    by (auto simp: p body_state_def)
qed

lemma callback_in_loop_body:
  assumes "Disassemble env a (drop (unat i) data) (disasmMaxSize env scanSize i) = Some (l, ins)"
  shows "\<exists>hit. EvCallback (Some ins) hit \<in>
           set (events (snd (loop_body env Callback cb data scanSize a i st)))"
  using assms callback_in_visit [of ins Callback "report_progress env cb scanSize i st"]
  by (simp add: loop_body_def Let_def)

lemma callback_in_fold_body:
  assumes "(a, j) \<in> set ps"
    and "Disassemble env a (drop (unat j) data) (disasmMaxSize env scanSize j) = Some (l, ins)"
  shows "\<exists>hit. EvCallback (Some ins) hit \<in>
           set (events (fold (body_state env Callback cb data scanSize) ps st))"
  using assms(1)
proof (induction ps arbitrary: st)
  case Nil
  then show ?case by simp
next
  case (Cons p ps)
  show ?case
  proof (cases "p = (a, j)")
    case True
    from callback_in_loop_body [OF assms(2), of Callback cb st] obtain hit where
      "EvCallback (Some ins) hit \<in> set (events (snd (loop_body env Callback cb data scanSize a j st)))"
      by blast
    then have "EvCallback (Some ins) hit \<in> set (events (fold (body_state env Callback cb data scanSize) ps
        (snd (loop_body env Callback cb data scanSize a j st))))"
      using set_events_fold_body by blast
    then show ?thesis using True by (auto simp: body_state_def)
  next
    case False
    with Cons.prems have "(a, j) \<in> set ps" by simp
    from Cons.IH [OF this] show ?thesis by simp
  qed
qed

subsection \<open>Readings of the trace of a range scan\<close>

lemma gui_append [simp]: "gui (xs @ ys) = gui xs @ gui ys"
  by (simp add: gui_def)

lemma overall_append [simp]: "overall (xs @ ys) = overall xs @ overall ys"
  by (induction xs rule: overall.induct) simp_all

lemma task_progress_append [simp]:
  "task_progress (xs @ ys) = task_progress xs @ task_progress ys"
  by (induction xs rule: task_progress.induct) simp_all

lemma overall_gui [simp]: "overall (gui evs) = overall evs"
  by (induction evs rule: overall.induct) (simp_all add: gui_def)

lemma task_progress_gui [simp]: "task_progress (gui evs) = task_progress evs"
  by (induction evs rule: task_progress.induct) (simp_all add: gui_def)





lemma refInfo_report_progress [simp]:
  "refInfo (report_progress env cb scanSize i st) = refInfo st"
  by (simp add: report_progress_def emit_def)




text \<open>A scan whose read fails, and one whose read succeeds.\<close>

lemma RefFindInRange_read_fails:
  assumes "MemRead env scanStart scanSize = None"
  shows "RefFindInRange env scanStart scanSize Callback Silent st initCallBack cb =
           Some (0, emit (EvMemRead scanStart scanSize #
                          (if Silent then []
                           else [EvDprintf ''Error reading memory in reference search\<newline>'' []])) st)"
  using assms by (simp add: RefFindInRange_def)






subsection \<open>Runs of \<^verbatim>\<open>nop\<close> in the example environment\<close>

lemma unat_of_nat_duint: "i < 2 ^ 64 \<Longrightarrow> unat (of_nat i :: duint) = i"
  by (simp add: unat_of_nat)






subsection \<open>The example that straddles offset 4096\<close>















subsection \<open>Where the positions start, and the exact percentage\<close>




subsection \<open>What a range scan returns\<close>

lemma RefFindInRange_zero:
  assumes "RefFindInRange env scanStart scanSize Callback Silent st initCallBack cb = Some (r, st1)"
    and "refcount (refInfo st1) = 0"
  shows "r = 0"
  using assms by (auto simp: RefFindInRange_def Let_def split: option.splits)

subsection \<open>Overall progress does not fall\<close>


















subsection \<open>The example environment meets what is asked\<close>








subsection \<open>The trace of a search, range by range\<close>













section \<open>Properties\<close>

subsection \<open>The count returned in region scope\<close>

text \<open>
  C1. The count \<^verbatim>\<open>RefFind\<close> returns in region scope should be the number of decoded
  instructions for which the callback returned true. \<^verbatim>\<open>RefFindInRange\<close> counts in
  \<^verbatim>\<open>refInfo.refcount\<close> and returns that counter; line 75 then adds the returned value to
  the same counter. On a region of one \<^verbatim>\<open>nop\<close> the callback returns true once (its own
  counter ends at 1) and \<^verbatim>\<open>RefFind\<close> returns 2. Module scope, which has no such line,
  returns 1 on the same memory.
\<close>

theorem RefFind_region_counts_twice:
  "RefFind (toy_env [(0x1000, [0x90])]) 0x1000 0 match_all 0 False ''T'' CURRENT_REGION =
     Some (2, 1,
       [EvMemRead 0x1000 1, EvCallback None False,
        EvTaskProgress 0 ''Region Search'', EvProgress 0,
        EvCallback (Some (NOP 0x1000)) True,
        EvTaskProgress 100 ''Region Search'', EvProgress 100, EvReloadData,
        EvProgress 100, EvReloadData]) \<and>
   RefFind (toy_env [(0x1000, [0x90])]) 0x1000 0 match_all 0 False ''T'' CURRENT_MODULE =
     Some (1, 1,
       [EvMemRead 0x1000 1, EvCallback None False,
        EvTaskProgress 0 ''Module Search'', EvProgress 0,
        EvCallback (Some (NOP 0x1000)) True,
        EvTaskProgress 100 ''Module Search'', EvProgress 100, EvReloadData,
        EvProgress 100, EvReloadData])"
  by code_simp

subsection \<open>The total over all modules\<close>

text \<open>
  C2. Over all modules the total should be the sum of the modules' counts, whatever
  their order. Line 173 returns as soon as \<^verbatim>\<open>RefFindInRange\<close> returns 0, which it also
  does after a successful scan while the counter is still 0. With a first module of one
  undecodable byte and a second of one \<^verbatim>\<open>nop\<close>, \<^verbatim>\<open>RefFind\<close> returns 0 and never reads
  the second module; with the two modules exchanged it returns 1.
\<close>

theorem RefFind_all_modules_order_matters:
  "RefFind (toy_env [(0x1000, [0xFF]), (0x2000, [0x90])]) 0 0 match_all 0 False ''T''
       ALL_MODULES =
     Some (0, 0,
       [EvMemRead 0x1000 1, EvCallback None False,
        EvTaskProgress 0 ''m'', EvProgress 0,
        EvTaskProgress 100 ''m'', EvProgress 50]) \<and>
   RefFind (toy_env [(0x2000, [0x90]), (0x1000, [0xFF])]) 0 0 match_all 0 False ''T''
       ALL_MODULES =
     Some (1, 1,
       [EvMemRead 0x2000 1, EvCallback None False,
        EvTaskProgress 0 ''m'', EvProgress 0,
        EvCallback (Some (NOP 0x2000)) True,
        EvTaskProgress 100 ''m'', EvProgress 50, EvReloadData,
        EvMemRead 0x1000 1,
        EvTaskProgress 0 ''m'', EvProgress 50,
        EvTaskProgress 100 ''m'', EvProgress 100, EvReloadData,
        EvProgress 100, EvReloadData])"
  by code_simp

subsection \<open>The range scanned in region scope\<close>

text \<open>
  C3. With an explicit size the scan should stop at the end of the region: its size
  should be \<open>min Size (regionSize - (Address - regionBase))\<close>. Line 42 subtracts from
  \<open>Size\<close> instead of \<open>regionSize\<close>, so the region's size is never used. For a region of
  two bytes at \<^verbatim>\<open>0x1000\<close> and a request of four bytes from its base, the range scanned
  is four bytes long, where the minimum above is two, and \<^verbatim>\<open>RefFind\<close> asks for a read of
  four bytes.
\<close>

theorem region_range_ignores_regionSize:
  "region_range 0x1000 2 0x1000 4 = (0x1000, 4) \<and>
   min (4 :: duint) (2 - (0x1000 - 0x1000)) = 2 \<and>
   MemFindBaseAddr (toy_env [(0x1000, [0x90, 0x90])]) 0x1000 = (0x1000, 2) \<and>
   RefFind (toy_env [(0x1000, [0x90, 0x90])]) 0x1000 4 match_all 0 False ''T'' CURRENT_REGION =
     Some (0, 0,
       [EvMemRead 0x1000 4,
        EvDprintf ''Error reading memory in reference search\<newline>'' [],
        EvReloadData])"
  by code_simp

subsection \<open>An address in no region\<close>

text \<open>
  C8. In region scope, when the lookup of the region gives no base or a size of 0,
  \<^verbatim>\<open>RefFind\<close> returns 0; the only call it makes is the diagnostic with the address, and
  that only when not silent. In particular it reads no memory of the debuggee and never
  calls the callback.
\<close>

theorem RefFind_region_not_found:
  assumes "fst (MemFindBaseAddr env Address) = 0 \<or> snd (MemFindBaseAddr env Address) = 0"
  shows "RefFind env Address Size Callback UserData Silent Name CURRENT_REGION =
           Some (0, UserData,
             if Silent then [] else [EvDprintf ''Invalid memory page 0x%p\<newline>'' [Address]])"
  using assms by (auto simp: RefFind_def RefFind_scope_def RefFind_region_def split: prod.splits)

theorem RefFind_region_not_found_witness:
  "(fst (MemFindBaseAddr (toy_env [(0x1000, [0x90])]) 0x5000) = 0 \<or>
    snd (MemFindBaseAddr (toy_env [(0x1000, [0x90])]) 0x5000) = 0) \<and>
   RefFind (toy_env [(0x1000, [0x90])]) 0x5000 8 match_all 7 False ''T'' CURRENT_REGION =
     Some (0, 7, [EvDprintf ''Invalid memory page 0x%p\<newline>'' [0x5000]])"
proof -
  have h: "fst (MemFindBaseAddr (toy_env [(0x1000, [0x90])]) 0x5000) = 0 \<or>
           snd (MemFindBaseAddr (toy_env [(0x1000, [0x90])]) 0x5000) = 0"
    by code_simp
  show ?thesis
    using h RefFind_region_not_found [OF h, of 8 match_all 7 False "''T''"] by simp
qed

subsection \<open>A byte that does not decode\<close>

text \<open>
  C4. When the disassembler fails at an offset \<open>k\<close> inside the range, the sweep goes
  on: it is the sweep from \<open>k + 1\<close> (and \<open>scanStart + 1\<close>) in the state the progress
  report of the iteration leaves. That state has the same context (so the same count)
  and the same caller's data, and its trace is extended by the progress report alone,
  when \<open>k\<close> is a multiple of 4096: no diagnostic, no call of the callback. Every
  instruction that decodes at a position the loop reaches from \<open>k + 1\<close> is handed to the
  callback before the sweep returns.
\<close>

theorem sweep_skips_undecodable_byte:
  assumes "k < scanSize"
    and "Disassemble env scanStart (drop (unat k) data) (disasmMaxSize env scanSize k) = None"
  shows "sweep env Callback cb data scanSize scanStart k st =
           sweep env Callback cb data scanSize (scanStart + 1) (k + 1)
             (report_progress env cb scanSize k st) \<and>
         refInfo (report_progress env cb scanSize k st) = refInfo st \<and>
         userdata (report_progress env cb scanSize k st) = userdata st \<and>
         events (report_progress env cb scanSize k st) =
           events st @ (if k mod 0x1000 = 0 then cb (range_percent env k scanSize) else []) \<and>
         (\<forall>ps st' a j l ins.
            positions env data scanSize (scanStart + 1) (k + 1) = Some ps \<longrightarrow>
            sweep env Callback cb data scanSize scanStart k st = Some st' \<longrightarrow>
            (a, j) \<in> set ps \<longrightarrow>
            Disassemble env a (drop (unat j) data) (disasmMaxSize env scanSize j) = Some (l, ins) \<longrightarrow>
            (\<exists>hit. EvCallback (Some ins) hit \<in> set (events st')))"
proof -
  have lb: "loop_body env Callback cb data scanSize scanStart k st =
              (1, report_progress env cb scanSize k st)"
    using assms(2) by (simp add: loop_body_def)
  have step: "sweep env Callback cb data scanSize scanStart k st =
           sweep env Callback cb data scanSize (scanStart + 1) (k + 1)
             (report_progress env cb scanSize k st)"
    using assms(1) lb by (subst sweep.simps) simp
  have frame: "refInfo (report_progress env cb scanSize k st) = refInfo st \<and>
         userdata (report_progress env cb scanSize k st) = userdata st \<and>
         events (report_progress env cb scanSize k st) =
           events st @ (if k mod 0x1000 = 0 then cb (range_percent env k scanSize) else [])"
    by (simp add: report_progress_def emit_def)
  have visits: "\<exists>hit. EvCallback (Some ins) hit \<in> set (events st')"
    if ps: "positions env data scanSize (scanStart + 1) (k + 1) = Some ps"
      and sw: "sweep env Callback cb data scanSize scanStart k st = Some st'"
      and mem: "(a, j) \<in> set ps"
      and dec: "Disassemble env a (drop (unat j) data) (disasmMaxSize env scanSize j) = Some (l, ins)"
    for ps st' a j l ins
  proof -
    from sw step sweep_of_positions [OF ps, of Callback cb "report_progress env cb scanSize k st"]
    have "st' = fold (body_state env Callback cb data scanSize) ps
                  (report_progress env cb scanSize k st)"
      by simp
    then show ?thesis using callback_in_fold_body [OF mem dec] by simp
  qed
  show ?thesis using step frame visits by blast
qed

theorem sweep_skips_undecodable_byte_witness:
  "(1 :: duint) < 3 \<and>
   Disassemble (toy_env [(0x1000, [0x90, 0xFF, 0x90])]) 0x1001
     (drop (unat (1 :: duint)) [0x90, 0xFF, 0x90])
     (disasmMaxSize (toy_env [(0x1000, [0x90, 0xFF, 0x90])]) 3 1) = None \<and>
   positions (toy_env [(0x1000, [0x90, 0xFF, 0x90])]) [0x90, 0xFF, 0x90] 3 (0x1001 + 1) (1 + 1) =
     Some [(0x1002, 2)] \<and>
   sweep (toy_env [(0x1000, [0x90, 0xFF, 0x90])]) match_all region_progress
       [0x90, 0xFF, 0x90] 3 0x1001 1 (init_state ''T'' (0 :: nat)) =
     Some \<lparr>refInfo = \<lparr>refcount = 1, name = ''T''\<rparr>, userdata = 1,
            events = [EvCallback (Some (NOP 0x1002)) True]\<rparr> \<and>
   Disassemble (toy_env [(0x1000, [0x90, 0xFF, 0x90])]) 0x1002
     (drop (unat (2 :: duint)) [0x90, 0xFF, 0x90])
     (disasmMaxSize (toy_env [(0x1000, [0x90, 0xFF, 0x90])]) 3 2) = Some (1, NOP 0x1002) \<and>
   (\<exists>hit. EvCallback (Some (NOP 0x1002)) hit \<in>
      set (events \<lparr>refInfo = \<lparr>refcount = 1, name = ''T''\<rparr>, userdata = 1 :: nat,
            events = [EvCallback (Some (NOP 0x1002)) True]\<rparr>))"
proof -
  let ?env = "toy_env [(0x1000, [0x90, 0xFF, 0x90])]"
  let ?data = "[0x90, 0xFF, 0x90] :: byte list"
  let ?st' = "\<lparr>refInfo = \<lparr>refcount = 1, name = ''T''\<rparr>, userdata = 1 :: nat,
            events = [EvCallback (Some (NOP 0x1002)) True]\<rparr>"
  have h1: "(1 :: duint) < 3" by simp
  have h2: "Disassemble ?env 0x1001 (drop (unat (1 :: duint)) ?data) (disasmMaxSize ?env 3 1) = None"
    by code_simp
  have h3: "positions ?env ?data 3 (0x1001 + 1) (1 + 1) = Some [(0x1002, 2)]"
    by code_simp
  have h4: "sweep ?env match_all region_progress ?data 3 0x1001 1 (init_state ''T'' (0 :: nat)) =
              Some ?st'"
    by code_simp
  have h5: "Disassemble ?env 0x1002 (drop (unat (2 :: duint)) ?data) (disasmMaxSize ?env 3 2) =
              Some (1, NOP 0x1002)"
    by code_simp
  have h6: "(0x1002, 2) \<in> set [(0x1002 :: duint, 2 :: duint)]" by simp
  from sweep_skips_undecodable_byte [OF h1 h2, of match_all region_progress "init_state ''T'' (0 :: nat)"]
  have "\<exists>hit. EvCallback (Some (NOP 0x1002)) hit \<in> set (events ?st')"
    using h3 h4 h5 h6 by blast
  then show ?thesis using h1 h2 h3 h4 h5 by blast
qed

subsection \<open>The sweep ends\<close>

text \<open>
  C10. With a disassembler whose instructions are at least one byte long, the loop of
  \<^verbatim>\<open>RefFindInRange\<close> ends for every range: the sweep returns, after running its body at
  a finite list of positions whose offsets increase strictly, from the starting offset
  on and below the size of the range. The range is one whose offsets cannot wrap around:
  its size is at most \<open>2^64 - 2^31\<close>, \<open>2^31\<close> bounding the length an \<^verbatim>\<open>int\<close> can report;
  every range the debugger has read into a buffer is far smaller.
\<close>

theorem sweep_terminates:
  assumes "lengths_positive env" and "unat scanSize + 2 ^ 31 \<le> (2 :: nat) ^ 64"
  shows "\<exists>ps. positions env data scanSize scanStart i = Some ps \<and>
           sweep env Callback cb data scanSize scanStart i st =
             Some (fold (body_state env Callback cb data scanSize) ps st) \<and>
           sorted_wrt (<) (map snd ps) \<and>
           (\<forall>j \<in> set (map snd ps). i \<le> j \<and> j < scanSize)"
proof -
  from positions_terminates [OF assms] obtain ps where
    ps: "positions env data scanSize scanStart i = Some ps"
    by blast
  show ?thesis
    using ps sweep_of_positions [OF ps] positions_increasing [OF assms ps] by blast
qed

theorem sweep_terminates_witness:
  "lengths_positive (toy_env [(0x1000, [0x90, 0xFF, 0xE8, 0, 0, 0, 0])]) \<and>
   unat (7 :: duint) + 2 ^ 31 \<le> (2 :: nat) ^ 64 \<and>
   positions (toy_env [(0x1000, [0x90, 0xFF, 0xE8, 0, 0, 0, 0])])
       [0x90, 0xFF, 0xE8, 0, 0, 0, 0] 7 0x1000 0 =
     Some [(0x1000, 0), (0x1001, 1), (0x1002, 2)] \<and>
   (\<exists>ps. positions (toy_env [(0x1000, [0x90, 0xFF, 0xE8, 0, 0, 0, 0])])
           [0x90, 0xFF, 0xE8, 0, 0, 0, 0] 7 0x1000 0 = Some ps \<and>
         sweep (toy_env [(0x1000, [0x90, 0xFF, 0xE8, 0, 0, 0, 0])]) match_all region_progress
           [0x90, 0xFF, 0xE8, 0, 0, 0, 0] 7 0x1000 0 (init_state ''T'' (0 :: nat)) =
           Some (fold (body_state (toy_env [(0x1000, [0x90, 0xFF, 0xE8, 0, 0, 0, 0])])
                   match_all region_progress [0x90, 0xFF, 0xE8, 0, 0, 0, 0] 7) ps
                   (init_state ''T'' 0)) \<and>
         sorted_wrt (<) (map snd ps) \<and>
         (\<forall>j \<in> set (map snd ps). 0 \<le> j \<and> j < 7))"
proof -
  have h1: "lengths_positive (toy_env [(0x1000, [0x90, 0xFF, 0xE8, 0, 0, 0, 0])])"
    by (rule lengths_positive_toy)
  have h2: "unat (7 :: duint) + 2 ^ 31 \<le> (2 :: nat) ^ 64" by simp
  have h3: "positions (toy_env [(0x1000, [0x90, 0xFF, 0xE8, 0, 0, 0, 0])])
       [0x90, 0xFF, 0xE8, 0, 0, 0, 0] 7 0x1000 0 =
     Some [(0x1000, 0), (0x1001, 1), (0x1002, 2)]"
    by code_simp
  show ?thesis
    using h1 h2 h3
      sweep_terminates [OF h1 h2, of "[0x90, 0xFF, 0xE8, 0, 0, 0, 0]" "0x1000" 0
         match_all region_progress "init_state ''T'' (0 :: nat)"]
    by blast
qed

subsection \<open>The progress reports of a range scan\<close>





subsection \<open>A scan that ends with no match yet\<close>

text \<open>
  C9. When \<^verbatim>\<open>RefFindInRange\<close> returns, after a failed read or a completed sweep, and the
  counter of the context is still 0, the value it returned is 0 and \<^verbatim>\<open>RefFind\<close> returns
  0 at once (lines 72, 118 and 173). What \<^verbatim>\<open>RefFind\<close> hands back is the caller's data and
  the trace as the scan left them: nothing of lines 180 and 181 is added (in region
  scope the refresh of line 70 has already been asked for), and in the loop over the
  modules no later module is read. The four parts are region scope, module scope, the
  loop over the modules at any index, and all-modules scope at its first module.
\<close>

theorem RefFind_returns_at_zero_count:
  "(MemFindBaseAddr env Address = (regionBase, regionSize) \<and> regionBase \<noteq> 0 \<and> regionSize \<noteq> 0 \<and>
    region_range regionBase regionSize Address Size = (scanStart, scanSize) \<and>
    RefFindInRange env scanStart scanSize Callback Silent
      (init_state (region_fullName env Name scanStart) UserData) True region_progress =
      Some (r, st1) \<and>
    refcount (refInfo st1) = 0 \<longrightarrow>
    RefFind env Address Size Callback UserData Silent Name CURRENT_REGION =
      Some (0, userdata st1, events st1 @ [EvReloadData])) \<and>
   (ModInfoFromAddr env Address = Some modInfo \<and>
    RefFindInRange env (base modInfo) (msize modInfo) Callback Silent
      (init_state (module_fullName env Name (base modInfo)) UserData) True module_progress =
      Some (r, st1) \<and>
    refcount (refInfo st1) = 0 \<longrightarrow>
    RefFind env Address Size Callback UserData Silent Name CURRENT_MODULE =
      Some (0, userdata st1, events st1)) \<and>
   (i < length modList \<and>
    RefFindInRange env (base (modList ! i)) (msize (modList ! i)) Callback Silent st
      (if i \<noteq> 0 then False else initCallBack) (all_modules_progress env modList i) =
      Some (r, st1) \<and>
    refcount (refInfo st1) = 0 \<longrightarrow>
    modules_loop env Callback Silent modList i initCallBack st =
      Some (Inl (0, userdata st1, events st1))) \<and>
   (ModGetList env \<noteq> [] \<and>
    RefFindInRange env (base (ModGetList env ! 0)) (msize (ModGetList env ! 0)) Callback Silent
      (init_state (''All Modules ('' @ Name @ '')'') UserData) True
      (all_modules_progress env (ModGetList env) 0) =
      Some (r, st1) \<and>
    refcount (refInfo st1) = 0 \<longrightarrow>
    RefFind env Address Size Callback UserData Silent Name ALL_MODULES =
      Some (0, userdata st1, events st1))"
proof (intro conjI impI)
  assume a: "MemFindBaseAddr env Address = (regionBase, regionSize) \<and> regionBase \<noteq> 0 \<and> regionSize \<noteq> 0 \<and>
    region_range regionBase regionSize Address Size = (scanStart, scanSize) \<and>
    RefFindInRange env scanStart scanSize Callback Silent
      (init_state (region_fullName env Name scanStart) UserData) True region_progress =
      Some (r, st1) \<and>
    refcount (refInfo st1) = 0"
  then have "r = 0" using RefFindInRange_zero by blast
  with a show "RefFind env Address Size Callback UserData Silent Name CURRENT_REGION =
      Some (0, userdata st1, events st1 @ [EvReloadData])"
    by (simp add: RefFind_def RefFind_scope_def RefFind_region_def early_return_def emit_def)
next
  assume a: "ModInfoFromAddr env Address = Some modInfo \<and>
    RefFindInRange env (base modInfo) (msize modInfo) Callback Silent
      (init_state (module_fullName env Name (base modInfo)) UserData) True module_progress =
      Some (r, st1) \<and>
    refcount (refInfo st1) = 0"
  then have "r = 0" using RefFindInRange_zero by blast
  with a show "RefFind env Address Size Callback UserData Silent Name CURRENT_MODULE =
      Some (0, userdata st1, events st1)"
    by (simp add: RefFind_def RefFind_scope_def RefFind_module_def early_return_def)
next
  assume a: "i < length modList \<and>
    RefFindInRange env (base (modList ! i)) (msize (modList ! i)) Callback Silent st
      (if i \<noteq> 0 then False else initCallBack) (all_modules_progress env modList i) =
      Some (r, st1) \<and>
    refcount (refInfo st1) = 0"
  then have "r = 0" using RefFindInRange_zero by blast
  with a show "modules_loop env Callback Silent modList i initCallBack st =
      Some (Inl (0, userdata st1, events st1))"
    by (subst modules_loop.simps) (simp add: early_return_def)
next
  assume a: "ModGetList env \<noteq> [] \<and>
    RefFindInRange env (base (ModGetList env ! 0)) (msize (ModGetList env ! 0)) Callback Silent
      (init_state (''All Modules ('' @ Name @ '')'') UserData) True
      (all_modules_progress env (ModGetList env) 0) =
      Some (r, st1) \<and>
    refcount (refInfo st1) = 0"
  then have "r = 0" using RefFindInRange_zero by blast
  with a show "RefFind env Address Size Callback UserData Silent Name ALL_MODULES =
      Some (0, userdata st1, events st1)"
    by (subst RefFind_def, subst RefFind_scope_def, subst RefFind_all_modules_def,
        subst modules_loop.simps) (simp add: early_return_def)
qed

theorem RefFind_returns_at_zero_count_witness:
  "(MemFindBaseAddr silent_then_nop 0x1000 = (0x1000, 1) \<and> (0x1000 :: duint) \<noteq> 0 \<and>
    (1 :: duint) \<noteq> 0 \<and> region_range 0x1000 1 0x1000 0 = (0x1000, 1) \<and>
    RefFindInRange silent_then_nop 0x1000 1 match_all False
      (init_state (region_fullName silent_then_nop ''T'' 0x1000) 0) True region_progress =
      Some (0, scanned_silent ''T (Region 0000000000001000)'' ''Region Search'' 100) \<and>
    refcount (refInfo (scanned_silent ''T (Region 0000000000001000)'' ''Region Search'' 100)) = 0 \<and>
    RefFind silent_then_nop 0x1000 0 match_all 0 False ''T'' CURRENT_REGION =
      Some (0, 0, events (scanned_silent ''T (Region 0000000000001000)'' ''Region Search'' 100) @
                    [EvReloadData])) \<and>
   (ModInfoFromAddr silent_then_nop 0x1000 = Some \<lparr>base = 0x1000, msize = 1, mname = ''m''\<rparr> \<and>
    RefFindInRange silent_then_nop 0x1000 1 match_all False
      (init_state (module_fullName silent_then_nop ''T'' 0x1000) 0) True module_progress =
      Some (0, scanned_silent ''T (0000000000001000)'' ''Module Search'' 100) \<and>
    RefFind silent_then_nop 0x1000 0 match_all 0 False ''T'' CURRENT_MODULE =
      Some (0, 0, events (scanned_silent ''T (0000000000001000)'' ''Module Search'' 100))) \<and>
   (ModGetList silent_then_nop =
      [\<lparr>base = 0x1000, msize = 1, mname = ''m''\<rparr>, \<lparr>base = 0x2000, msize = 1, mname = ''m''\<rparr>] \<and>
    RefFindInRange silent_then_nop 0x1000 1 match_all False
      (init_state ''All Modules (T)'' 0) True
      (all_modules_progress silent_then_nop (ModGetList silent_then_nop) 0) =
      Some (0, scanned_silent ''All Modules (T)'' ''m'' 50) \<and>
    modules_loop silent_then_nop match_all False (ModGetList silent_then_nop) 0 True
      (init_state ''All Modules (T)'' 0) =
      Some (Inl (0, 0, events (scanned_silent ''All Modules (T)'' ''m'' 50))) \<and>
    RefFind silent_then_nop 0 0 match_all 0 False ''T'' ALL_MODULES =
      Some (0, 0, events (scanned_silent ''All Modules (T)'' ''m'' 50)))"
proof -
  let ?E = silent_then_nop
  let ?r = "scanned_silent ''T (Region 0000000000001000)'' ''Region Search'' 100"
  let ?m = "scanned_silent ''T (0000000000001000)'' ''Module Search'' 100"
  let ?a = "scanned_silent ''All Modules (T)'' ''m'' 50"
  have r1: "MemFindBaseAddr ?E 0x1000 = (0x1000, 1)" by code_simp
  have r2: "region_range 0x1000 1 0x1000 0 = (0x1000, 1)" by code_simp
  have r3: "RefFindInRange ?E 0x1000 1 match_all False
      (init_state (region_fullName ?E ''T'' 0x1000) 0) True region_progress = Some (0, ?r)"
    by code_simp
  have z: "refcount (refInfo ?r) = 0" "refcount (refInfo ?m) = 0" "refcount (refInfo ?a) = 0"
    "userdata ?r = 0" "userdata ?m = 0" "userdata ?a = 0"
    by (simp_all add: scanned_silent_def)
  have m1: "ModInfoFromAddr ?E 0x1000 = Some \<lparr>base = 0x1000, msize = 1, mname = ''m''\<rparr>"
    by code_simp
  have m2: "RefFindInRange ?E 0x1000 1 match_all False
      (init_state (module_fullName ?E ''T'' 0x1000) 0) True module_progress = Some (0, ?m)"
    by code_simp
  have a1: "ModGetList ?E =
      [\<lparr>base = 0x1000, msize = 1, mname = ''m''\<rparr>, \<lparr>base = 0x2000, msize = 1, mname = ''m''\<rparr>]"
    by code_simp
  have a2: "RefFindInRange ?E 0x1000 1 match_all False (init_state ''All Modules (T)'' 0) True
      (all_modules_progress ?E (ModGetList ?E) 0) = Some (0, ?a)"
    by code_simp
  have c1: "RefFind ?E 0x1000 0 match_all 0 False ''T'' CURRENT_REGION =
      Some (0, 0, events ?r @ [EvReloadData])"
    using RefFind_returns_at_zero_count [where env = ?E and Address = "0x1000"
        and regionBase = "0x1000" and regionSize = 1 and Size = 0 and scanStart = "0x1000"
        and scanSize = 1 and Callback = match_all and Silent = False and Name = "''T''"
        and UserData = 0 and r = 0 and ?st1.0 = ?r]
      r1 r2 r3 z by simp
  have c2: "RefFind ?E 0x1000 0 match_all 0 False ''T'' CURRENT_MODULE = Some (0, 0, events ?m)"
    using RefFind_returns_at_zero_count [where env = ?E and Address = "0x1000"
        and Size = 0 and Callback = match_all and Silent = False and Name = "''T''"
        and UserData = 0 and r = 0 and ?st1.0 = ?m
        and modInfo = "\<lparr>base = 0x1000, msize = 1, mname = ''m''\<rparr>"]
      m1 m2 z by simp
  have c3: "modules_loop ?E match_all False (ModGetList ?E) 0 True (init_state ''All Modules (T)'' 0) =
      Some (Inl (0, 0, events ?a))"
    using RefFind_returns_at_zero_count [where env = ?E
        and Callback = match_all and Silent = False
        and r = 0 and ?st1.0 = ?a and i = 0 and modList = "ModGetList ?E"
        and st = "init_state ''All Modules (T)'' 0" and initCallBack = True]
      a1 a2 z by simp
  have c4: "RefFind ?E 0 0 match_all 0 False ''T'' ALL_MODULES = Some (0, 0, events ?a)"
    using RefFind_returns_at_zero_count [where env = ?E and Address = 0
        and Size = 0 and Callback = match_all and Silent = False and Name = "''T''"
        and UserData = 0 and r = 0 and ?st1.0 = ?a]
      a1 a2 z by simp
  show ?thesis using r1 r2 r3 z m1 m2 a1 a2 c1 c2 c3 c4 by simp
qed

subsection \<open>Overall progress\<close>



subsection \<open>The overall percentage of a progress callback\<close>



end
